theory Spec2Isabelle
  imports Main "HOL-Library.Sublist"
begin

section \<open>Messages\<close>

text \<open>
  The messages of the bubbletea event loop that the components receive. A key message is
  represented by the string \<^verbatim>\<open>msg.String()\<close> that the code switches on. A Go \<^verbatim>\<open>error\<close>
  is its message, \<open>None\<close> for \<^verbatim>\<open>nil\<close>. The client pointer of
  \<^verbatim>\<open>KubeConfigChangedMsg\<close> is the kubeconfig path the client was built from.
\<close>

datatype tea_msg =
    KeyMsg string
  | WindowSizeMsg int int
  | NamespacesLoadedMsg "string list" "string option"
  | DeploymentsLoadedMsg "string list" "string option"
  | PodsLoadedMsg "string list" "string option"
  | ContainersLoadedMsg "string list" "string option"
  | CommandResultMsg string "string option"
  | ExecCompleteMsg "string option"
  | LogsLoadedMsg string "string option"
  | LogLineMsg string
  | LogStreamEndMsg "string option"
  | KubeConfigsLoadedMsg "string list" "string option"
  | KubeConfigChangedMsg "string option" string "string option"
  | AssetFoldersLoadedMsg "string list" "string option"
  | FastDeployCompleteMsg string "string option"
  | logStreamMsg string
  | OtherMsg

section \<open>FuzzyList (pkg/ui/fuzzylist.go)\<close>

text \<open>
  \<^verbatim>\<open>fuzzy.Match\<close> of the library github.com/sahilm/fuzzy. The matched indexes are byte
  offsets into \<^verbatim>\<open>Str\<close>.
\<close>

record fmatch =
  Str :: string
  Index :: nat
  MatchedIndexes :: "nat list"
  Score :: int

text \<open>
  The library function \<^verbatim>\<open>fuzzy.Find\<close> is not part of the repository: every function
  below that calls it takes it as the parameter \<open>fz\<close>.
\<close>

type_synonym finder = "string \<Rightarrow> string list \<Rightarrow> fmatch list"

text \<open>
  The struct. The text input (bubbles' \<^verbatim>\<open>textinput.Model\<close>) is represented by the
  string its \<^verbatim>\<open>Value()\<close> returns; \<^verbatim>\<open>int\<close> fields are integers.
\<close>

record FuzzyList =
  textInput :: string
  items :: "string list"
  recentItems :: "string list"
  filtered :: "fmatch list"
  filteredRecent :: "fmatch list"
  cursor :: int
  maxVisible :: int
  scrollOffset :: int
  title :: string
  loading :: bool
  err :: "string option"
  inRecentSection :: bool

definition NewFuzzyList :: "string \<Rightarrow> FuzzyList" where
  "NewFuzzyList t =
     \<lparr>textInput = [], items = [], recentItems = [], filtered = [], filteredRecent = [],
      cursor = 0, maxVisible = 10, scrollOffset = 0, title = t, loading = True,
      err = None, inRecentSection = True\<rparr>"

definition totalItems :: "FuzzyList \<Rightarrow> int" where
  "totalItems f = int (length (filteredRecent f)) + int (length (filtered f))"

text \<open>
  The loop of \<^verbatim>\<open>filterItems\<close> for the empty query: every item becomes a match that
  carries its position in the list and no matched index.
\<close>

definition identityMatches :: "string list \<Rightarrow> fmatch list" where
  "identityMatches xs =
     map (\<lambda>(i, item). \<lparr>Str = item, Index = i, MatchedIndexes = [], Score = 0\<rparr>)
       (enumerate 0 xs)"

definition itemsWithoutRecent :: "FuzzyList \<Rightarrow> string list" where
  "itemsWithoutRecent f = filter (\<lambda>item. item \<notin> set (recentItems f)) (items f)"

definition filterItems :: "finder \<Rightarrow> FuzzyList \<Rightarrow> FuzzyList" where
  "filterItems fz f =
     (let query = textInput f;
          fr = (if length (recentItems f) > 0
                then (if query = [] then identityMatches (recentItems f)
                      else fz query (recentItems f))
                else []);
          fl = (if query = [] then identityMatches (itemsWithoutRecent f)
                else fz query (itemsWithoutRecent f));
          total = int (length fr) + int (length fl);
          c = (if cursor f \<ge> total then 0 else cursor f)
      in f\<lparr>filteredRecent := fr, filtered := fl, cursor := c,
           inRecentSection := (c < int (length fr)), scrollOffset := 0\<rparr>)"

definition SetItems :: "finder \<Rightarrow> string list \<Rightarrow> FuzzyList \<Rightarrow> FuzzyList" where
  "SetItems fz xs f = filterItems fz (f\<lparr>items := xs, loading := False\<rparr>)"

definition SetRecentItems :: "finder \<Rightarrow> string list \<Rightarrow> FuzzyList \<Rightarrow> FuzzyList" where
  "SetRecentItems fz xs f = filterItems fz (f\<lparr>recentItems := xs\<rparr>)"

definition SetError :: "string option \<Rightarrow> FuzzyList \<Rightarrow> FuzzyList" where
  "SetError e f = f\<lparr>err := e, loading := False\<rparr>"

definition SetLoading :: "bool \<Rightarrow> FuzzyList \<Rightarrow> FuzzyList" where
  "SetLoading b f = f\<lparr>loading := b\<rparr>"

definition GetInput :: "FuzzyList \<Rightarrow> string" where
  "GetInput f = textInput f"

definition Reset :: "finder \<Rightarrow> FuzzyList \<Rightarrow> FuzzyList" where
  "Reset fz f =
     filterItems fz (f\<lparr>textInput := [], cursor := 0, scrollOffset := 0,
                         inRecentSection := True\<rparr>)"

text \<open>
  \<^verbatim>\<open>GetSelected\<close>. Both indexings are guarded by the source; the first one has no lower
  guard, so a negative cursor there is the index panic of the Go runtime.
\<close>

definition GetSelected :: "FuzzyList \<Rightarrow> string option" where
  "GetSelected f =
     (if inRecentSection f \<and> length (filteredRecent f) > 0
         \<and> cursor f < int (length (filteredRecent f))
      then (if cursor f < 0 then None
            else Some (Str (filteredRecent f ! nat (cursor f))))
      else
        (let mainCursor = (if length (filteredRecent f) > 0
                           then cursor f - int (length (filteredRecent f))
                           else cursor f)
         in if mainCursor \<ge> 0 \<and> mainCursor < int (length (filtered f))
            then Some (Str (filtered f ! nat mainCursor))
            else Some []))"

text \<open>
  The tail of \<^verbatim>\<open>Update\<close>: the message goes to the text input, and the list is filtered
  again when the value changed. The text input is a library component, so its reaction
  is given by the value \<open>nv\<close> it holds afterwards.
\<close>

definition forwardToInput :: "finder \<Rightarrow> string \<Rightarrow> FuzzyList \<Rightarrow> FuzzyList" where
  "forwardToInput fz nv f =
     (let prevValue = textInput f;
          f' = f\<lparr>textInput := nv\<rparr>
      in if nv \<noteq> prevValue then filterItems fz f' else f')"

definition keyUp :: "FuzzyList \<Rightarrow> FuzzyList" where
  "keyUp f =
     (if cursor f > 0
      then (let c = cursor f - 1
            in f\<lparr>cursor := c, inRecentSection := (c < int (length (filteredRecent f))),
                 scrollOffset := (if c < scrollOffset f then c else scrollOffset f)\<rparr>)
      else f)"

definition keyDown :: "FuzzyList \<Rightarrow> FuzzyList" where
  "keyDown f =
     (if cursor f < totalItems f - 1
      then (let c = cursor f + 1
            in f\<lparr>cursor := c, inRecentSection := (c < int (length (filteredRecent f))),
                 scrollOffset := (if c \<ge> scrollOffset f + maxVisible f
                                  then c - maxVisible f + 1 else scrollOffset f)\<rparr>)
      else f)"

definition keyPgUp :: "FuzzyList \<Rightarrow> FuzzyList" where
  "keyPgUp f =
     (let c0 = cursor f - maxVisible f;
          c = (if c0 < 0 then 0 else c0)
      in f\<lparr>cursor := c, inRecentSection := (c < int (length (filteredRecent f))),
           scrollOffset := c\<rparr>)"

definition keyPgDown :: "FuzzyList \<Rightarrow> FuzzyList" where
  "keyPgDown f =
     (let total = totalItems f;
          c0 = cursor f + maxVisible f;
          c1 = (if c0 \<ge> total then total - 1 else c0);
          c = (if c1 < 0 then 0 else c1)
      in f\<lparr>cursor := c, inRecentSection := (c < int (length (filteredRecent f))),
           scrollOffset := (if c \<ge> scrollOffset f + maxVisible f
                            then c - maxVisible f + 1 else scrollOffset f)\<rparr>)"

definition FuzzyList_Update :: "finder \<Rightarrow> string \<Rightarrow> tea_msg \<Rightarrow> FuzzyList \<Rightarrow> FuzzyList" where
  "FuzzyList_Update fz nv msg f =
     (case msg of
        KeyMsg k \<Rightarrow>
          if k = ''up'' \<or> k = ''ctrl+p'' then keyUp f
          else if k = ''down'' \<or> k = ''ctrl+n'' then keyDown f
          else if k = ''pgup'' then keyPgUp f
          else if k = ''pgdown'' then keyPgDown f
          else forwardToInput fz nv f
      | _ \<Rightarrow> forwardToInput fz nv f)"

text \<open>
  The states a FuzzyList can be in: the constructor, then any sequence of calls of its
  methods, with any library matcher and any reaction of the text input.
\<close>

inductive reachableFL :: "finder \<Rightarrow> FuzzyList \<Rightarrow> bool" for fz :: finder where
  rNew: "reachableFL fz (NewFuzzyList t)"
| rSetItems: "reachableFL fz f \<Longrightarrow> reachableFL fz (SetItems fz xs f)"
| rSetRecentItems: "reachableFL fz f \<Longrightarrow> reachableFL fz (SetRecentItems fz xs f)"
| rSetError: "reachableFL fz f \<Longrightarrow> reachableFL fz (SetError e f)"
| rSetLoading: "reachableFL fz f \<Longrightarrow> reachableFL fz (SetLoading b f)"
| rReset: "reachableFL fz f \<Longrightarrow> reachableFL fz (Reset fz f)"
| rUpdate: "reachableFL fz f \<Longrightarrow> reachableFL fz (FuzzyList_Update fz nv msg f)"

definition cursorInRange :: "FuzzyList \<Rightarrow> bool" where
  "cursorInRange f = (0 \<le> cursor f \<and> cursor f < totalItems f)"

definition isNavKey :: "string \<Rightarrow> bool" where
  "isNavKey k = (k \<in> {''up'', ''ctrl+p'', ''down'', ''ctrl+n'', ''pgup'', ''pgdown''})"


text \<open>
  The cursor after an operation that filters again: kept when it still points into the
  new concatenated result, and 0 otherwise.
\<close>

definition cursorResetOrKept :: "FuzzyList \<Rightarrow> FuzzyList \<Rightarrow> bool" where
  "cursorResetOrKept f f' =
     (if 0 \<le> cursor f \<and> cursor f < totalItems f' then cursor f' = cursor f
      else cursor f' = 0)"

subsection \<open>The contract of the library matcher\<close>

text \<open>
  What the specification requires of a match for the query \<open>q\<close>: its positions are
  strictly increasing, point into the matched string, and the characters there, read in
  order, are the characters of \<open>q\<close>.
\<close>

definition matchOK :: "string \<Rightarrow> fmatch \<Rightarrow> bool" where
  "matchOK q m =
     (sorted_wrt (<) (MatchedIndexes m) \<and>
      list_all (\<lambda>p. p < length (Str m)) (MatchedIndexes m) \<and>
      map (\<lambda>p. Str m ! p) (MatchedIndexes m) = q)"

definition finderOK :: "finder \<Rightarrow> bool" where
  "finderOK fz =
     (\<forall>q xs. q \<noteq> [] \<longrightarrow> list_all (\<lambda>m. matchOK q m \<and> Str m \<in> set xs) (fz q xs))"

text \<open>
  Modelled from the spec: \<^verbatim>\<open>fuzzy.Find\<close> of github.com/sahilm/fuzzy, which the
  repository imports and does not contain. The specification asks for subsequence
  matching with match-position tracking and leaves the order of the results to the
  implementation: this matcher takes the leftmost occurrence of each query character,
  keeps the items in their order, and returns nothing for the empty pattern.
\<close>

fun matchFrom :: "nat \<Rightarrow> string \<Rightarrow> string \<Rightarrow> nat list option" where
  "matchFrom i [] s = Some []"
| "matchFrom i (c # q) [] = None"
| "matchFrom i (c # q) (d # s) =
     (if c = d then map_option ((#) i) (matchFrom (Suc i) q s)
      else matchFrom (Suc i) (c # q) s)"

definition fuzzy_find :: finder where
  "fuzzy_find q xs =
     (if q = [] then []
      else List.map_filter
             (\<lambda>(i, item). map_option
                (\<lambda>ps. \<lparr>Str = item, Index = i, MatchedIndexes = ps, Score = 0\<rparr>)
                (matchFrom 0 q item))
             (enumerate 0 xs))"

section \<open>LogViewer (pkg/ui/logviewer.go)\<close>

text \<open>
  Go's integer division truncates towards zero.
\<close>

definition go_div :: "int \<Rightarrow> int \<Rightarrow> int" where
  "go_div a b = sgn a * sgn b * (\<bar>a\<bar> div \<bar>b\<bar>)"

text \<open>
  \<^verbatim>\<open>strings.ToLower\<close>: a string of ASCII bytes has its letters A to Z moved to a to z; for
  any other string the standard library maps the Unicode tables over its runes, and that
  mapping is the parameter \<open>uni\<close>.
\<close>

definition lowerByte :: "char \<Rightarrow> char" where
  "lowerByte c =
     (if (65::nat) \<le> of_char c \<and> of_char c \<le> (90::nat)
      then char_of (of_char c + (32::nat)) else c)"

definition isASCII :: "string \<Rightarrow> bool" where
  "isASCII s = list_all (\<lambda>c. of_char c < (128::nat)) s"

definition ToLower :: "(string \<Rightarrow> string) \<Rightarrow> string \<Rightarrow> string" where
  "ToLower uni s = (if isASCII s then map lowerByte s else uni s)"

text \<open>\<^verbatim>\<open>strings.Contains\<close>: the second string occurs in the first as a block of bytes.\<close>

fun Contains :: "string \<Rightarrow> string \<Rightarrow> bool" where
  "Contains [] sub = (sub = [])"
| "Contains (c # s) sub = (prefix sub (c # s) \<or> Contains s sub)"

text \<open>\<^verbatim>\<open>strings.Split(s, "\n")\<close>: one more piece than there are newlines.\<close>

fun splitLines :: "string \<Rightarrow> string list" where
  "splitLines [] = [[]]"
| "splitLines (c # s) =
     (if c = CHR 0x0A then [] # splitLines s
      else (case splitLines s of [] \<Rightarrow> [[c]] | x # xs \<Rightarrow> (c # x) # xs))"

text \<open>
  The struct. The search input is the string its \<^verbatim>\<open>Value()\<close> returns, its focus flag and
  its width; of the two viewports the width and height are kept. What the viewports
  display and their scroll offset are rendering state, written by \<^verbatim>\<open>updateContent\<close> and
  read by \<^verbatim>\<open>View\<close> only; they are left out, and so is \<^verbatim>\<open>updateContent\<close>.
\<close>

record LogViewer =
  searchInput :: string
  searchFocused :: bool
  searchInputWidth :: int
  viewportWidth :: int
  viewportHeight :: int
  detailViewportWidth :: int
  detailViewportHeight :: int
  allLines :: "string list"
  filteredLines :: "string list"
  recentSearches :: "string list"
  searchQuery :: string
  selectedIndex :: int
  showSearch :: bool
  ready :: bool
  width :: int
  height :: int
  streaming :: bool
  autoScroll :: bool

definition NewLogViewer :: LogViewer where
  "NewLogViewer =
     \<lparr>searchInput = [], searchFocused = False, searchInputWidth = 60,
      viewportWidth = 0, viewportHeight = 0, detailViewportWidth = 0,
      detailViewportHeight = 0, allLines = [], filteredLines = [], recentSearches = [],
      searchQuery = [], selectedIndex = 0, showSearch = True, ready = False,
      width = 0, height = 0, streaming = False, autoScroll = True\<rparr>"

definition SetSize :: "int \<Rightarrow> int \<Rightarrow> LogViewer \<Rightarrow> LogViewer" where
  "SetSize w h l =
     (let listHeight0 = go_div ((h - 10) * 6) 10;
          detailHeight0 = (h - 10) - listHeight0;
          listHeight = (if listHeight0 < 5 then 5 else listHeight0);
          detailHeight = (if detailHeight0 < 3 then 3 else detailHeight0)
      in l\<lparr>width := w, height := h,
           viewportWidth := w - 4, viewportHeight := listHeight,
           detailViewportWidth := w - 4, detailViewportHeight := detailHeight,
           ready := True, searchInputWidth := w - 20\<rparr>)"

definition filterLogs :: "(string \<Rightarrow> string) \<Rightarrow> LogViewer \<Rightarrow> LogViewer" where
  "filterLogs uni l =
     (let query = ToLower uni (searchInput l);
          fl = (if query = [] then allLines l
                else filter (\<lambda>line. Contains (ToLower uni line) query) (allLines l));
          sel = (if selectedIndex l \<ge> int (length fl) then 0 else selectedIndex l)
      in l\<lparr>searchQuery := searchInput l, filteredLines := fl, selectedIndex := sel\<rparr>)"

definition SetLogs :: "(string \<Rightarrow> string) \<Rightarrow> string \<Rightarrow> LogViewer \<Rightarrow> LogViewer" where
  "SetLogs uni logs l =
     filterLogs uni (l\<lparr>allLines := (if logs = [] then [] else splitLines logs)\<rparr>)"

definition AppendLog :: "(string \<Rightarrow> string) \<Rightarrow> string \<Rightarrow> LogViewer \<Rightarrow> LogViewer" where
  "AppendLog uni line l =
     (let l' = filterLogs uni (l\<lparr>allLines := allLines l @ [line]\<rparr>)
      in if autoScroll l' \<and> streaming l'
         then (if length (filteredLines l') > 0
               then l'\<lparr>selectedIndex := int (length (filteredLines l')) - 1\<rparr>
               else l')
         else l')"

definition SetStreaming :: "bool \<Rightarrow> LogViewer \<Rightarrow> LogViewer" where
  "SetStreaming b l = l\<lparr>streaming := b, autoScroll := b\<rparr>"

definition SetRecentSearches :: "string list \<Rightarrow> LogViewer \<Rightarrow> LogViewer" where
  "SetRecentSearches xs l = l\<lparr>recentSearches := xs\<rparr>"

definition GetSearchQuery :: "LogViewer \<Rightarrow> string" where
  "GetSearchQuery l = searchQuery l"

definition Focus :: "LogViewer \<Rightarrow> LogViewer" where
  "Focus l = l\<lparr>searchFocused := True\<rparr>"

text \<open>
  The tail of \<^verbatim>\<open>Update\<close>: a focused search input receives the message, and the lines are
  filtered again when its value changed; \<open>nv\<close> is the value it holds afterwards.
\<close>

definition forwardToSearch :: "(string \<Rightarrow> string) \<Rightarrow> string \<Rightarrow> LogViewer \<Rightarrow> LogViewer" where
  "forwardToSearch uni nv l =
     (if searchFocused l
      then (let prevValue = searchInput l;
                l' = l\<lparr>searchInput := nv\<rparr>
            in if nv \<noteq> prevValue then filterLogs uni l' else l')
      else l)"

definition lvPgUp :: "LogViewer \<Rightarrow> LogViewer" where
  "lvPgUp l =
     (let s0 = selectedIndex l - go_div (viewportHeight l) 2
      in l\<lparr>selectedIndex := (if s0 < 0 then 0 else s0)\<rparr>)"

definition lvPgDown :: "LogViewer \<Rightarrow> LogViewer" where
  "lvPgDown l =
     (let s0 = selectedIndex l + go_div (viewportHeight l) 2;
          s1 = (if s0 \<ge> int (length (filteredLines l))
                then int (length (filteredLines l)) - 1 else s0)
      in l\<lparr>selectedIndex := (if s1 < 0 then 0 else s1)\<rparr>)"

definition LogViewer_Update ::
  "(string \<Rightarrow> string) \<Rightarrow> string \<Rightarrow> tea_msg \<Rightarrow> LogViewer \<Rightarrow> LogViewer" where
  "LogViewer_Update uni nv msg l =
     (case msg of
        KeyMsg k \<Rightarrow>
          if k = ''up'' \<or> k = ''k''
          then (if selectedIndex l > 0 then l\<lparr>selectedIndex := selectedIndex l - 1\<rparr> else l)
          else if k = ''down'' \<or> k = ''j''
          then (if selectedIndex l < int (length (filteredLines l)) - 1
                then l\<lparr>selectedIndex := selectedIndex l + 1\<rparr> else l)
          else if k = ''pgup'' \<or> k = ''ctrl+u'' then lvPgUp l
          else if k = ''pgdown'' \<or> k = ''ctrl+d'' then lvPgDown l
          else if (k = ''home'' \<or> k = ''g'') \<and> \<not> searchFocused l
          then l\<lparr>selectedIndex := 0\<rparr>
          else if (k = ''end'' \<or> k = ''G'') \<and> \<not> searchFocused l
          then (if length (filteredLines l) > 0
                then l\<lparr>selectedIndex := int (length (filteredLines l)) - 1\<rparr> else l)
          else if k = ''/'' \<and> \<not> searchFocused l then l\<lparr>searchFocused := True\<rparr>
          else if k = ''enter'' \<and> searchFocused l then l\<lparr>searchFocused := False\<rparr>
          else if k = ''tab'' then l\<lparr>searchFocused := (\<not> searchFocused l)\<rparr>
          else if k = ''ctrl+l'' then filterLogs uni (l\<lparr>searchInput := []\<rparr>)
          else forwardToSearch uni nv l
      | _ \<Rightarrow> forwardToSearch uni nv l)"






section \<open>Preferences (pkg/config/config.go)\<close>

text \<open>
  The maps of the struct are total functions: reading a missing key of a Go map of
  slices gives the nil slice. \<^verbatim>\<open>Save\<close> writes the file and its result is discarded by
  every caller, so the methods below are the changes to the struct.
\<close>

record Config =
  LastNamespace :: string
  KubeConfig :: string
  RecentKubeConfigs :: "string list"
  RecentDeployments :: "string \<Rightarrow> string list"
  RecentCommands :: "string list"
  RecentPods :: "string \<Rightarrow> string list"
  RecentLogSearches :: "string list"

definition MaxRecentItems :: nat where
  "MaxRecentItems = 5"

definition addToRecent :: "string list \<Rightarrow> string \<Rightarrow> string list" where
  "addToRecent list item =
     take MaxRecentItems (item # filter (\<lambda>existing. existing \<noteq> item) list)"

definition SetNamespace :: "string \<Rightarrow> Config \<Rightarrow> Config" where
  "SetNamespace ns c = c\<lparr>LastNamespace := ns\<rparr>"

definition AddRecentDeployment :: "string \<Rightarrow> string \<Rightarrow> Config \<Rightarrow> Config" where
  "AddRecentDeployment ns d c =
     c\<lparr>RecentDeployments := (RecentDeployments c)(ns := addToRecent (RecentDeployments c ns) d)\<rparr>"

definition AddRecentCommand :: "string \<Rightarrow> Config \<Rightarrow> Config" where
  "AddRecentCommand x c = c\<lparr>RecentCommands := addToRecent (RecentCommands c) x\<rparr>"

definition AddRecentPod :: "string \<Rightarrow> string \<Rightarrow> Config \<Rightarrow> Config" where
  "AddRecentPod d p c =
     c\<lparr>RecentPods := (RecentPods c)(d := addToRecent (RecentPods c d) p)\<rparr>"

definition AddRecentLogSearch :: "string \<Rightarrow> Config \<Rightarrow> Config" where
  "AddRecentLogSearch x c =
     (if x = [] then c else c\<lparr>RecentLogSearches := addToRecent (RecentLogSearches c) x\<rparr>)"

definition SetKubeConfig :: "string \<Rightarrow> Config \<Rightarrow> Config" where
  "SetKubeConfig path c =
     c\<lparr>KubeConfig := path, RecentKubeConfigs := addToRecent (RecentKubeConfigs c) path\<rparr>"

section \<open>The wizard (package ui, model)\<close>

datatype AppState =
    StateSelectKubeConfig
  | StateSelectNamespace
  | StateSelectDeployment
  | StateSelectCommand
  | StateSelectPod
  | StateSelectContainer
  | StateSelectAssetFolder
  | StateInputValue
  | StateExecuting
  | StateShowResult
  | StateViewLogs

record Command =
  Name :: string
  Description :: string
  NeedsPod :: bool
  NeedsContainer :: bool
  NeedsInput :: bool
  InputPrompt :: string

definition mkCommand :: "string \<Rightarrow> string \<Rightarrow> bool \<Rightarrow> bool \<Rightarrow> bool \<Rightarrow> string \<Rightarrow> Command" where
  "mkCommand n d p c i pr =
     \<lparr>Name = n, Description = d, NeedsPod = p, NeedsContainer = c, NeedsInput = i,
      InputPrompt = pr\<rparr>"

definition AvailableCommands :: "Command list" where
  "AvailableCommands =
     [mkCommand ''logs'' ''View container logs'' True True False [],
      mkCommand ''logs-follow'' ''Follow container logs'' True True False [],
      mkCommand ''shell'' ''Open shell (auto-detects bash/sh/ash)'' True True False [],
      mkCommand ''fast-deploy'' ''Deploy local dist to /app/assets'' True True False [],
      mkCommand ''scale'' ''Scale deployment'' False False True ''Enter replica count:'',
      mkCommand ''update-image'' ''Update container image'' False True True ''Enter new image:'',
      mkCommand ''port-forward'' ''Forward port to pod'' True False True
        ''Enter ports (local:remote):'',
      mkCommand ''rollback'' ''Rollback deployment'' False False True ''Enter revision number:'',
      mkCommand ''set-env'' ''Set environment variable'' False True True ''Enter KEY=VALUE:'',
      mkCommand ''list-env'' ''List environment variables'' False True False [],
      mkCommand ''list-pods'' ''List all pods'' False False False [],
      mkCommand ''list-revisions'' ''List deployment revisions'' False False False [],
      mkCommand ''ingress'' ''Show related ingresses'' False False False [],
      mkCommand ''describe'' ''Describe deployment'' False False False []]"

text \<open>
  A \<^verbatim>\<open>tea.Cmd\<close> is a closure that the runtime calls in the background. The model names
  each closure the wizard returns. \<open>Emit msg\<close> is a closure whose body only returns
  \<open>msg\<close>; \<open>ChildCmd\<close> is whatever the active child component returned (possibly nil);
  the others call the Kubernetes client or the file system, with the arguments that
  were computed before the closure was built. \<open>NewClientWithInputPath\<close> carries the
  path as typed, before a leading \<^verbatim>\<open>~/\<close> is replaced by the home directory.
\<close>

datatype tea_cmd =
    NoCmd
  | Quit
  | ChildCmd
  | Emit tea_msg
  | LoadNamespaces
  | LoadKubeConfigs
  | LoadDeployments
  | LoadPods
  | LoadContainers
  | LoadAssetFolders
  | LoadPodsAndSelectFirst
  | ExecuteFastDeploy
  | NewClientWithConfig string
  | NewClientWithInputPath string
  | StreamLogs string
  | ReadNextLine
  | CheckShellAvailable
  | GetLogs
  | ScaleDeployment int
  | UpdateImage
  | RollbackDeployment int
  | SetEnvVar string string
  | GetEnvVars
  | ListPods
  | GetReplicaSets
  | GetIngresses
  | GetDeployment

text \<open>The closures that reach the resource client (or build one).\<close>

fun callsClient :: "tea_cmd \<Rightarrow> bool" where
  "callsClient NoCmd = False"
| "callsClient Quit = False"
| "callsClient ChildCmd = False"
| "callsClient (Emit msg) = False"
| "callsClient LoadKubeConfigs = False"
| "callsClient ReadNextLine = False"
| "callsClient c = True"

text \<open>
  The struct. A selector's fields are those of FuzzyList; \<^verbatim>\<open>valueInput\<close> is the value of
  the text input and its placeholder; \<^verbatim>\<open>k8sClient\<close> is the kubeconfig path of the client,
  \<open>None\<close> for nil; \<^verbatim>\<open>cancelStream\<close> says whether the cancel function is set. The fields
  \<^verbatim>\<open>err\<close>, \<^verbatim>\<open>width\<close>, \<^verbatim>\<open>height\<close> and \<^verbatim>\<open>streaming\<close> carry the prefix \<open>m_\<close>, since the
  components have fields of these names.
\<close>

record Model =
  config :: Config
  k8sClient :: "string option"
  state :: AppState
  prevStates :: "AppState list"
  kubeconfig :: string
  namespace :: string
  deployment :: string
  command :: "Command option"
  pod :: string
  container :: string
  inputValue :: string
  assetFolder :: string
  kcSelector :: FuzzyList
  nsSelector :: FuzzyList
  depSelector :: FuzzyList
  cmdSelector :: FuzzyList
  podSelector :: FuzzyList
  contSelector :: FuzzyList
  assetSelector :: FuzzyList
  valueInput :: string
  valuePlaceholder :: string
  logViewer :: LogViewer
  result :: string
  m_err :: "string option"
  m_width :: int
  m_height :: int
  m_streaming :: bool
  cancelStream :: bool
  showNamespaceChange :: bool
  showKubeConfigChange :: bool
  initialClientErr :: "string option"

text \<open>
  A function of the wizard returns the new model and the command, or \<open>None\<close> where the
  Go runtime panics (a nil \<^verbatim>\<open>m.command\<close> dereferenced, an index out of range).
\<close>

type_synonym outcome = "(Model \<times> tea_cmd) option"

text \<open>
  The part of a string before the first occurrence of a non-empty separator, the whole
  string when there is none: \<^verbatim>\<open>strings.Split(s, sep)[0]\<close>, and \<^verbatim>\<open>s[:strings.Index(s, sep)]\<close>
  guarded by the test for -1.
\<close>

fun beforeSep :: "string \<Rightarrow> string \<Rightarrow> string" where
  "beforeSep sep [] = []"
| "beforeSep sep (c # s) = (if prefix sep (c # s) then [] else c # beforeSep sep s)"

definition extractPodName :: "string \<Rightarrow> string" where
  "extractPodName podStr = beforeSep '' ('' podStr"

text \<open>
  \<^verbatim>\<open>strconv.Atoi\<close> and \<^verbatim>\<open>strconv.ParseInt(s, 10, 64)\<close> of the standard library, on a 64-bit
  platform: an optional sign, then one or more decimal digits, and a value that fits
  64 bits; everything else is an error.
\<close>

definition isDigit :: "char \<Rightarrow> bool" where
  "isDigit c = ((48::nat) \<le> of_char c \<and> of_char c \<le> (57::nat))"

definition digitsValue :: "string \<Rightarrow> int" where
  "digitsValue ds = foldl (\<lambda>acc c. acc * 10 + (int (of_char c) - 48)) 0 ds"

definition Atoi :: "string \<Rightarrow> int option" where
  "Atoi s =
     (let neg = (s \<noteq> [] \<and> hd s = CHR ''-'');
          ds = (if s \<noteq> [] \<and> (hd s = CHR ''-'' \<or> hd s = CHR ''+'') then tl s else s)
      in if ds = [] \<or> \<not> list_all isDigit ds then None
         else (let v = (if neg then - digitsValue ds else digitsValue ds)
               in if v < - (2 ^ 63) \<or> v > 2 ^ 63 - 1 then None else Some v))"

text \<open>The conversion \<^verbatim>\<open>int32(replicas)\<close> keeps the low 32 bits, read as signed.\<close>

definition toInt32 :: "int \<Rightarrow> int" where
  "toInt32 n = (n + 2 ^ 31) mod 2 ^ 32 - 2 ^ 31"

text \<open>\<^verbatim>\<open>fmt.Errorf("invalid replica count: %s", m.inputValue)\<close> and its sibling.\<close>

definition invalidReplicaCount :: "string \<Rightarrow> string" where
  "invalidReplicaCount v = ''invalid replica count: '' @ v"

definition invalidRevision :: "string \<Rightarrow> string" where
  "invalidRevision v = ''invalid revision number: '' @ v"

text \<open>\<^verbatim>\<open>strings.Split(s, ":")\<close> has two parts when there is exactly one colon.\<close>

definition countByte :: "char \<Rightarrow> string \<Rightarrow> nat" where
  "countByte c s = length (filter (\<lambda>d. d = c) s)"

definition executeCommand :: "(string \<Rightarrow> string) \<Rightarrow> Model \<Rightarrow> outcome" where
  "executeCommand uni m0 =
     (let m = m0\<lparr>state := StateExecuting\<rparr>
      in case command m of
           None \<Rightarrow> None
         | Some cmd \<Rightarrow>
             (let n = Name cmd
              in if n = ''shell'' then Some (m, CheckShellAvailable)
                 else if n = ''logs'' then Some (m, GetLogs)
                 else if n = ''logs-follow''
                 then Some (m\<lparr>m_streaming := True, cancelStream := True,
                              logViewer :=
                                SetStreaming True
                                  (SetLogs uni []
                                    (SetRecentSearches (RecentLogSearches (config m))
                                      (SetSize (m_width m) (m_height m) NewLogViewer))),
                              state := StateViewLogs\<rparr>,
                            StreamLogs (extractPodName (pod m)))
                 else if n = ''scale''
                 then (case Atoi (inputValue m) of
                         None \<Rightarrow>
                           Some (m, Emit (CommandResultMsg []
                                            (Some (invalidReplicaCount (inputValue m)))))
                       | Some replicas \<Rightarrow> Some (m, ScaleDeployment (toInt32 replicas)))
                 else if n = ''update-image'' then Some (m, UpdateImage)
                 else if n = ''port-forward''
                 then (if countByte (CHR '':'') (inputValue m) \<noteq> 1
                       then Some (m, Emit (CommandResultMsg []
                                            (Some ''invalid port format, use local:remote'')))
                       else Some (m, Emit (ExecCompleteMsg None)))
                 else if n = ''rollback''
                 then (case Atoi (inputValue m) of
                         None \<Rightarrow>
                           Some (m, Emit (CommandResultMsg []
                                            (Some (invalidRevision (inputValue m)))))
                       | Some revision \<Rightarrow> Some (m, RollbackDeployment revision))
                 else if n = ''set-env''
                 then (if CHR ''='' \<notin> set (inputValue m)
                       then Some (m, Emit (CommandResultMsg []
                                            (Some ''invalid format, use KEY=VALUE'')))
                       else Some (m, SetEnvVar (beforeSep ''='' (inputValue m))
                                       (drop (Suc (length (beforeSep ''='' (inputValue m))))
                                          (inputValue m))))
                 else if n = ''list-env'' then Some (m, GetEnvVars)
                 else if n = ''list-pods'' then Some (m, ListPods)
                 else if n = ''list-revisions'' then Some (m, GetReplicaSets)
                 else if n = ''ingress'' then Some (m, GetIngresses)
                 else if n = ''describe'' then Some (m, GetDeployment)
                 else Some (m, NoCmd)))"

text \<open>
  The three places that open the free-form input do the same: the value is cleared and
  the placeholder becomes the prompt of the command. The input also gets the focus,
  which the model of the value input does not record.
\<close>

definition askInput :: "Command \<Rightarrow> Model \<Rightarrow> Model" where
  "askInput cmd m =
     m\<lparr>state := StateInputValue, valueInput := [], valuePlaceholder := InputPrompt cmd\<rparr>"

definition proceedAfterContainer :: "finder \<Rightarrow> (string \<Rightarrow> string) \<Rightarrow> Model \<Rightarrow> outcome" where
  "proceedAfterContainer fz uni m =
     (case command m of
        None \<Rightarrow> None
      | Some cmd \<Rightarrow>
          if Name cmd = ''fast-deploy''
          then Some (m\<lparr>state := StateSelectAssetFolder,
                       assetSelector := Reset fz (assetSelector m)\<rparr>, LoadAssetFolders)
          else if NeedsInput cmd then Some (askInput cmd m, NoCmd)
          else executeCommand uni m)"

definition proceedAfterPod :: "finder \<Rightarrow> (string \<Rightarrow> string) \<Rightarrow> Model \<Rightarrow> outcome" where
  "proceedAfterPod fz uni m =
     (case command m of
        None \<Rightarrow> None
      | Some cmd \<Rightarrow>
          if NeedsContainer cmd
          then Some (m\<lparr>state := StateSelectContainer,
                       contSelector := Reset fz (contSelector m)\<rparr>, LoadContainers)
          else if NeedsInput cmd then Some (askInput cmd m, NoCmd)
          else executeCommand uni m)"

definition proceedAfterCommand :: "finder \<Rightarrow> (string \<Rightarrow> string) \<Rightarrow> Model \<Rightarrow> outcome" where
  "proceedAfterCommand fz uni m =
     (case command m of
        None \<Rightarrow> None
      | Some cmd \<Rightarrow>
          if NeedsPod cmd
          then Some (m\<lparr>state := StateSelectPod,
                       podSelector := Reset fz (podSelector m)\<rparr>, LoadPods)
          else if NeedsContainer cmd
          then Some (m\<lparr>state := StateSelectContainer,
                       contSelector := Reset fz (contSelector m)\<rparr>, LoadPodsAndSelectFirst)
          else if NeedsInput cmd then Some (askInput cmd m, NoCmd)
          else executeCommand uni m)"


definition setKubeconfigCommand :: Command where
  "setKubeconfigCommand = mkCommand ''set-kubeconfig'' [] False False False
     ''Enter kubeconfig file path:''"

definition findCommand :: "string \<Rightarrow> Command option" where
  "findCommand cmdName = List.find (\<lambda>c. Name c = cmdName) AvailableCommands"

definition backToCommands :: "finder \<Rightarrow> Model \<Rightarrow> Model" where
  "backToCommands fz m =
     m\<lparr>state := StateSelectCommand, cmdSelector := Reset fz (cmdSelector m)\<rparr>"

definition handleEnter :: "finder \<Rightarrow> (string \<Rightarrow> string) \<Rightarrow> Model \<Rightarrow> outcome" where
  "handleEnter fz uni m =
     (case state m of
        StateSelectKubeConfig \<Rightarrow>
          (case GetSelected (kcSelector m) of
             None \<Rightarrow> None
           | Some selected \<Rightarrow>
               if selected = [] then Some (m, NoCmd)
               else if prefix ''+ '' selected
               then Some (m\<lparr>valueInput := [],
                            valuePlaceholder :=
                              ''Enter kubeconfig path (e.g., ~/.kube/config-prod)'',
                            state := StateInputValue,
                            command := Some setKubeconfigCommand\<rparr>, NoCmd)
               else Some (m, NewClientWithConfig selected))
      | StateSelectNamespace \<Rightarrow>
          (case GetSelected (nsSelector m) of
             None \<Rightarrow> None
           | Some selected \<Rightarrow>
               if selected = [] then Some (m, NoCmd)
               else Some (m\<lparr>namespace := selected,
                            config := SetNamespace selected (config m),
                            showNamespaceChange := False,
                            state := StateSelectDeployment,
                            depSelector := Reset fz (depSelector m)\<rparr>, LoadDeployments))
      | StateSelectDeployment \<Rightarrow>
          (case GetSelected (depSelector m) of
             None \<Rightarrow> None
           | Some selected \<Rightarrow>
               if selected = [] then Some (m, NoCmd)
               else (let c = AddRecentDeployment (namespace m) selected (config m)
                     in Some (m\<lparr>deployment := selected, config := c,
                                 state := StateSelectCommand,
                                 cmdSelector :=
                                   SetRecentItems fz (RecentCommands c)
                                     (Reset fz (cmdSelector m))\<rparr>, NoCmd)))
      | StateSelectCommand \<Rightarrow>
          (case GetSelected (cmdSelector m) of
             None \<Rightarrow> None
           | Some selected \<Rightarrow>
               if selected = [] then Some (m, NoCmd)
               else (let m1 = (case findCommand (beforeSep '' - '' selected) of
                                 None \<Rightarrow> m
                               | Some c \<Rightarrow> m\<lparr>command := Some c\<rparr>)
                     in if command m1 = None then Some (m1, NoCmd)
                        else proceedAfterCommand fz uni
                               (m1\<lparr>config := AddRecentCommand selected (config m1)\<rparr>)))
      | StateSelectPod \<Rightarrow>
          (case GetSelected (podSelector m) of
             None \<Rightarrow> None
           | Some selected \<Rightarrow>
               if selected = [] then Some (m, NoCmd)
               else proceedAfterPod fz uni
                      (m\<lparr>pod := selected,
                         config := AddRecentPod (deployment m) selected (config m)\<rparr>))
      | StateSelectContainer \<Rightarrow>
          (case GetSelected (contSelector m) of
             None \<Rightarrow> None
           | Some selected \<Rightarrow>
               if selected = [] then Some (m, NoCmd)
               else proceedAfterContainer fz uni (m\<lparr>container := selected\<rparr>))
      | StateSelectAssetFolder \<Rightarrow>
          (case GetSelected (assetSelector m) of
             None \<Rightarrow> None
           | Some selected \<Rightarrow>
               if selected = [] then Some (m, NoCmd)
               else Some (m\<lparr>assetFolder := selected, state := StateInputValue,
                            valueInput := [],
                            valuePlaceholder :=
                              ''Enter local dist folder path (e.g., ~/project/dist):''\<rparr>,
                          NoCmd))
      | StateInputValue \<Rightarrow>
          (let m1 = m\<lparr>inputValue := valueInput m\<rparr>
           in if inputValue m1 = [] then Some (m1, NoCmd)
              else if command m1 \<noteq> None \<and> Name (the (command m1)) = ''set-kubeconfig''
              then Some (m1, NewClientWithInputPath (inputValue m1))
              else if command m1 \<noteq> None \<and> Name (the (command m1)) = ''fast-deploy''
              then Some (m1\<lparr>state := StateExecuting\<rparr>, ExecuteFastDeploy)
              else executeCommand uni m1)
      | StateShowResult \<Rightarrow>
          Some (backToCommands fz (m\<lparr>result := [], m_err := None\<rparr>), NoCmd)
      | _ \<Rightarrow> Some (m, NoCmd))"

definition goBack :: "finder \<Rightarrow> Model \<Rightarrow> outcome" where
  "goBack fz m =
     (case state m of
        StateSelectDeployment \<Rightarrow> Some (m, NoCmd)
      | StateSelectCommand \<Rightarrow>
          Some (m\<lparr>state := StateSelectDeployment,
                  depSelector := Reset fz (depSelector m)\<rparr>, LoadDeployments)
      | StateSelectPod \<Rightarrow> Some (backToCommands fz m, NoCmd)
      | StateSelectContainer \<Rightarrow>
          (case command m of
             None \<Rightarrow> None
           | Some cmd \<Rightarrow>
               if NeedsPod cmd
               then Some (m\<lparr>state := StateSelectPod,
                            podSelector := Reset fz (podSelector m)\<rparr>, LoadPods)
               else Some (backToCommands fz m, NoCmd))
      | StateSelectAssetFolder \<Rightarrow>
          Some (m\<lparr>state := StateSelectContainer,
                  contSelector := Reset fz (contSelector m)\<rparr>, LoadContainers)
      | StateInputValue \<Rightarrow>
          (case command m of
             None \<Rightarrow> None
           | Some cmd \<Rightarrow>
               if Name cmd = ''fast-deploy''
               then Some (m\<lparr>state := StateSelectAssetFolder,
                            assetSelector := Reset fz (assetSelector m)\<rparr>, LoadAssetFolders)
               else if NeedsContainer cmd
               then Some (m\<lparr>state := StateSelectContainer,
                            contSelector := Reset fz (contSelector m)\<rparr>, LoadContainers)
               else if NeedsPod cmd
               then Some (m\<lparr>state := StateSelectPod,
                            podSelector := Reset fz (podSelector m)\<rparr>, LoadPods)
               else Some (backToCommands fz m, NoCmd))
      | StateShowResult \<Rightarrow>
          Some (backToCommands fz (m\<lparr>result := [], m_err := None\<rparr>), NoCmd)
      | _ \<Rightarrow> Some (m, NoCmd))"

text \<open>
  The end of a detour (changing the kubeconfig or the namespace): the flag is cleared
  and the state on top of the stack, if any, is restored.
\<close>

definition popState :: "Model \<Rightarrow> Model" where
  "popState m =
     (if length (prevStates m) > 0
      then m\<lparr>state := last (prevStates m), prevStates := butlast (prevStates m)\<rparr>
      else m)"

text \<open>
  The query of the step that is active, as the \<^verbatim>\<open>backspace\<close> case of \<^verbatim>\<open>Update\<close> reads it:
  the switch names six selectors and the value input, and its default branch takes the
  input as empty.
\<close>

definition inputEmpty :: "Model \<Rightarrow> bool" where
  "inputEmpty m =
     (case state m of
        StateSelectKubeConfig \<Rightarrow> GetInput (kcSelector m) = []
      | StateSelectNamespace \<Rightarrow> GetInput (nsSelector m) = []
      | StateSelectDeployment \<Rightarrow> GetInput (depSelector m) = []
      | StateSelectCommand \<Rightarrow> GetInput (cmdSelector m) = []
      | StateSelectPod \<Rightarrow> GetInput (podSelector m) = []
      | StateSelectContainer \<Rightarrow> GetInput (contSelector m) = []
      | StateInputValue \<Rightarrow> valueInput m = []
      | _ \<Rightarrow> True)"

text \<open>
  The end of \<^verbatim>\<open>Update\<close>: the message goes to the component of the current state; \<open>nv\<close>
  is the value its text input holds afterwards.
\<close>

definition updateActive :: "finder \<Rightarrow> string \<Rightarrow> tea_msg \<Rightarrow> Model \<Rightarrow> outcome" where
  "updateActive fz nv msg m =
     (case state m of
        StateSelectKubeConfig \<Rightarrow>
          Some (m\<lparr>kcSelector := FuzzyList_Update fz nv msg (kcSelector m)\<rparr>, ChildCmd)
      | StateSelectNamespace \<Rightarrow>
          Some (m\<lparr>nsSelector := FuzzyList_Update fz nv msg (nsSelector m)\<rparr>, ChildCmd)
      | StateSelectDeployment \<Rightarrow>
          Some (m\<lparr>depSelector := FuzzyList_Update fz nv msg (depSelector m)\<rparr>, ChildCmd)
      | StateSelectCommand \<Rightarrow>
          Some (m\<lparr>cmdSelector := FuzzyList_Update fz nv msg (cmdSelector m)\<rparr>, ChildCmd)
      | StateSelectPod \<Rightarrow>
          Some (m\<lparr>podSelector := FuzzyList_Update fz nv msg (podSelector m)\<rparr>, ChildCmd)
      | StateSelectContainer \<Rightarrow>
          Some (m\<lparr>contSelector := FuzzyList_Update fz nv msg (contSelector m)\<rparr>, ChildCmd)
      | StateSelectAssetFolder \<Rightarrow>
          Some (m\<lparr>assetSelector := FuzzyList_Update fz nv msg (assetSelector m)\<rparr>, ChildCmd)
      | StateInputValue \<Rightarrow> Some (m\<lparr>valueInput := nv\<rparr>, ChildCmd)
      | _ \<Rightarrow> Some (m, NoCmd))"

definition stopStream :: "Model \<Rightarrow> Model" where
  "stopStream m = (if m_streaming m \<and> cancelStream m then m\<lparr>m_streaming := False\<rparr> else m)"

text \<open>The key handling of \<^verbatim>\<open>Update\<close> while the log viewer is shown.\<close>

definition updateKeyViewLogs :: "finder \<Rightarrow> (string \<Rightarrow> string) \<Rightarrow> string \<Rightarrow> string \<Rightarrow> Model \<Rightarrow> outcome" where
  "updateKeyViewLogs fz uni nv k m =
     (if k = ''ctrl+c'' then Some (stopStream m, Quit)
      else if k = ''esc'' \<or> k = ''q''
      then (let m1 = stopStream m;
                m2 = (if GetSearchQuery (logViewer m1) \<noteq> []
                      then m1\<lparr>config :=
                                AddRecentLogSearch (GetSearchQuery (logViewer m1)) (config m1)\<rparr>
                      else m1)
            in Some (backToCommands fz m2, NoCmd))
      else Some (m\<lparr>logViewer := LogViewer_Update uni nv (KeyMsg k) (logViewer m)\<rparr>, ChildCmd))"

text \<open>The key handling of \<^verbatim>\<open>Update\<close> in every other state.\<close>

definition updateKey :: "finder \<Rightarrow> (string \<Rightarrow> string) \<Rightarrow> string \<Rightarrow> string \<Rightarrow> Model \<Rightarrow> outcome" where
  "updateKey fz uni nv k m =
     (if k = ''ctrl+c'' \<or> k = ''q'' then Some (m, Quit)
      else if k = ''ctrl+n'' \<and> state m \<noteq> StateSelectNamespace
      then Some (m\<lparr>showNamespaceChange := True, prevStates := prevStates m @ [state m],
                   state := StateSelectNamespace,
                   nsSelector := Reset fz (nsSelector m)\<rparr>, LoadNamespaces)
      else if k = ''ctrl+k'' \<and> state m \<noteq> StateSelectKubeConfig
      then Some (m\<lparr>showKubeConfigChange := True, prevStates := prevStates m @ [state m],
                   state := StateSelectKubeConfig,
                   kcSelector := Reset fz (kcSelector m)\<rparr>, LoadKubeConfigs)
      else if k = ''esc''
      then (if state m = StateSelectKubeConfig \<and> showKubeConfigChange m
            then Some (popState (m\<lparr>showKubeConfigChange := False\<rparr>), NoCmd)
            else if state m = StateSelectNamespace \<and> showNamespaceChange m
            then Some (popState (m\<lparr>showNamespaceChange := False\<rparr>), NoCmd)
            else goBack fz m)
      else if k = ''backspace'' \<and> inputEmpty m
      then (if state m = StateSelectKubeConfig \<and> showKubeConfigChange m
            then Some (popState (m\<lparr>showKubeConfigChange := False\<rparr>), NoCmd)
            else if state m = StateSelectNamespace \<and> showNamespaceChange m
            then Some (popState (m\<lparr>showNamespaceChange := False\<rparr>), NoCmd)
            else goBack fz m)
      else if k = ''enter'' \<or> k = ''tab'' then handleEnter fz uni m
      else updateActive fz nv (KeyMsg k) m)"

definition Model_Update ::
  "finder \<Rightarrow> (string \<Rightarrow> string) \<Rightarrow> string \<Rightarrow> tea_msg \<Rightarrow> Model \<Rightarrow> outcome" where
  "Model_Update fz uni nv msg m =
     (case msg of
        WindowSizeMsg w h \<Rightarrow>
          Some (m\<lparr>m_width := w, m_height := h, logViewer := SetSize w h (logViewer m)\<rparr>, NoCmd)
      | KeyMsg k \<Rightarrow>
          if state m = StateViewLogs then updateKeyViewLogs fz uni nv k m
          else updateKey fz uni nv k m
      | NamespacesLoadedMsg xs e \<Rightarrow>
          Some (m\<lparr>nsSelector := (if e \<noteq> None then SetError e (nsSelector m)
                                  else SetItems fz xs (nsSelector m))\<rparr>, NoCmd)
      | KubeConfigsLoadedMsg xs e \<Rightarrow>
          Some (m\<lparr>kcSelector :=
                    (if e \<noteq> None then SetError e (kcSelector m)
                     else SetItems fz xs
                            (SetRecentItems fz (RecentKubeConfigs (config m)) (kcSelector m)))\<rparr>,
                NoCmd)
      | KubeConfigChangedMsg client path e \<Rightarrow>
          if e \<noteq> None then Some (m\<lparr>m_err := e, state := StateShowResult\<rparr>, NoCmd)
          else Some (m\<lparr>k8sClient := client, kubeconfig := path,
                       config := SetKubeConfig path (config m),
                       showKubeConfigChange := False, namespace := [], deployment := [],
                       state := StateSelectNamespace\<rparr>, LoadNamespaces)
      | DeploymentsLoadedMsg xs e \<Rightarrow>
          Some (m\<lparr>depSelector :=
                    (if e \<noteq> None then SetError e (depSelector m)
                     else SetItems fz xs
                            (SetRecentItems fz (RecentDeployments (config m) (namespace m))
                               (depSelector m)))\<rparr>, NoCmd)
      | PodsLoadedMsg xs e \<Rightarrow>
          Some (m\<lparr>podSelector :=
                    (if e \<noteq> None then SetError e (podSelector m)
                     else SetItems fz xs
                            (SetRecentItems fz (RecentPods (config m) (deployment m))
                               (podSelector m)))\<rparr>, NoCmd)
      | ContainersLoadedMsg xs e \<Rightarrow>
          if e \<noteq> None then Some (m\<lparr>contSelector := SetError e (contSelector m)\<rparr>, NoCmd)
          else (let m1 = m\<lparr>contSelector := SetItems fz xs (contSelector m)\<rparr>
                in if length xs = 1
                   then proceedAfterContainer fz uni (m1\<lparr>container := hd xs\<rparr>)
                   else Some (m1, NoCmd))
      | CommandResultMsg r e \<Rightarrow>
          (let m1 = m\<lparr>state := StateShowResult\<rparr>
           in Some (if e \<noteq> None then m1\<lparr>m_err := e\<rparr> else m1\<lparr>result := r\<rparr>, NoCmd))
      | LogsLoadedMsg logs e \<Rightarrow>
          if e \<noteq> None then Some (m\<lparr>m_err := e, state := StateShowResult\<rparr>, NoCmd)
          else Some (m\<lparr>logViewer :=
                         Focus (SetLogs uni logs
                           (SetRecentSearches (RecentLogSearches (config m))
                             (SetSize (m_width m) (m_height m) NewLogViewer))),
                       state := StateViewLogs\<rparr>, NoCmd)
      | logStreamMsg line \<Rightarrow>
          Some (m\<lparr>logViewer := AppendLog uni line (logViewer m)\<rparr>, ReadNextLine)
      | LogStreamEndMsg e \<Rightarrow>
          (let m1 = m\<lparr>m_streaming := False, logViewer := SetStreaming False (logViewer m)\<rparr>
           in Some (if e \<noteq> None then m1\<lparr>m_err := e\<rparr> else m1, NoCmd))
      | ExecCompleteMsg e \<Rightarrow>
          if e \<noteq> None then Some (m\<lparr>m_err := e, state := StateShowResult\<rparr>, NoCmd)
          else Some (m, Quit)
      | AssetFoldersLoadedMsg xs e \<Rightarrow>
          Some (m\<lparr>assetSelector := (if e \<noteq> None then SetError e (assetSelector m)
                                     else SetItems fz xs (assetSelector m))\<rparr>, NoCmd)
      | FastDeployCompleteMsg r e \<Rightarrow>
          (let m1 = m\<lparr>state := StateShowResult\<rparr>
           in Some (if e \<noteq> None then m1\<lparr>m_err := e\<rparr> else m1\<lparr>result := r\<rparr>, NoCmd))
      | _ \<Rightarrow> updateActive fz nv msg m)"


text \<open>
  \<^verbatim>\<open>NewModel\<close>. The entries of the command selector are the name and the description
  of each command, joined by " - ".
\<close>

definition commandLabel :: "Command \<Rightarrow> string" where
  "commandLabel c = Name c @ '' - '' @ Description c"

definition NewModel :: "finder \<Rightarrow> Config \<Rightarrow> string option \<Rightarrow> string option \<Rightarrow> Model" where
  "NewModel fz cfg client clientErr =
     \<lparr>config = cfg, k8sClient = client,
      state = (if client = None then StateSelectKubeConfig
               else if LastNamespace cfg = [] then StateSelectNamespace
               else StateSelectDeployment),
      prevStates = [],
      kubeconfig = (case client of None \<Rightarrow> [] | Some path \<Rightarrow> path),
      namespace = LastNamespace cfg, deployment = [], command = None, pod = [],
      container = [], inputValue = [], assetFolder = [],
      kcSelector = NewFuzzyList ''Select Kubeconfig'',
      nsSelector = NewFuzzyList ''Select Namespace'',
      depSelector = NewFuzzyList ''Select Deployment'',
      cmdSelector = SetItems fz (map commandLabel AvailableCommands)
                      (NewFuzzyList ''Select Command''),
      podSelector = NewFuzzyList ''Select Pod'',
      contSelector = NewFuzzyList ''Select Container'',
      assetSelector = NewFuzzyList ''Select Asset Folder'',
      valueInput = [], valuePlaceholder = [], logViewer = NewLogViewer, result = [],
      m_err = None, m_width = 0, m_height = 0, m_streaming = False, cancelStream = False,
      showNamespaceChange = False, showKubeConfigChange = (client = None),
      initialClientErr = clientErr\<rparr>"

text \<open>
  The event loop: the messages are handed to \<^verbatim>\<open>Update\<close> one after the other, each with
  the value its text input holds afterwards; a panic ends the run.
\<close>

fun runMsgs :: "finder \<Rightarrow> (string \<Rightarrow> string) \<Rightarrow> (string \<times> tea_msg) list \<Rightarrow> Model \<Rightarrow> Model option" where
  "runMsgs fz uni [] m = Some m"
| "runMsgs fz uni ((nv, msg) # rest) m =
     (case Model_Update fz uni nv msg m of
        None \<Rightarrow> None
      | Some (m', c) \<Rightarrow> runMsgs fz uni rest m')"

section \<open>Properties stated by the specification\<close>

text \<open>
  The filtered lines in the words of the specification: the lines, in their order, whose
  lower-cased text contains the lower-cased query as a block of consecutive characters.
\<close>

definition matchingLines :: "(string \<Rightarrow> string) \<Rightarrow> string \<Rightarrow> string list \<Rightarrow> string list" where
  "matchingLines uni q ls = filter (\<lambda>line. sublist (ToLower uni q) (ToLower uni line)) ls"

text \<open>The invariant of the selector: what every reachable FuzzyList satisfies.\<close>

definition invFL :: "FuzzyList \<Rightarrow> bool" where
  "invFL f =
     (0 \<le> cursor f \<and> maxVisible f = 10 \<and>
      (totalItems f \<noteq> 0 \<longrightarrow> cursor f < totalItems f))"



text \<open>
  The text-entry query of the active step: the input of the selector shown in the
  current state, or the value input.
\<close>

definition activeQuery :: "Model \<Rightarrow> string" where
  "activeQuery m =
     (case state m of
        StateSelectKubeConfig \<Rightarrow> GetInput (kcSelector m)
      | StateSelectNamespace \<Rightarrow> GetInput (nsSelector m)
      | StateSelectDeployment \<Rightarrow> GetInput (depSelector m)
      | StateSelectCommand \<Rightarrow> GetInput (cmdSelector m)
      | StateSelectPod \<Rightarrow> GetInput (podSelector m)
      | StateSelectContainer \<Rightarrow> GetInput (contSelector m)
      | StateSelectAssetFolder \<Rightarrow> GetInput (assetSelector m)
      | StateInputValue \<Rightarrow> valueInput m
      | _ \<Rightarrow> [])"

section \<open>Concrete inputs\<close>

text \<open>
  A stand-in for the Unicode lower-casing on concrete inputs; they are ASCII, where
  \<^verbatim>\<open>strings.ToLower\<close> does not consult the Unicode tables.
\<close>

definition plainLower :: "string \<Rightarrow> string" where
  "plainLower s = s"

text \<open>A selector that has received three candidates.\<close>

definition demoList :: FuzzyList where
  "demoList = SetItems fuzzy_find [''alpha'', ''beta'', ''gamma''] (NewFuzzyList ''Select'')"




text \<open>
  A session of the wizard: a saved namespace and a client, the deployments arrive, the
  operator confirms the first one (\<open>cmdTrace\<close>), then confirms the first command, logs,
  and types a letter into the pod selector (\<open>podTrace\<close>); or moves down to the command
  scale, confirms it and types "abc" (\<open>scaleTrace\<close>).
\<close>

definition savedConfig :: Config where
  "savedConfig =
     \<lparr>LastNamespace = ''default'', KubeConfig = [], RecentKubeConfigs = [],
      RecentDeployments = (\<lambda>ns. []), RecentCommands = [], RecentPods = (\<lambda>d. []),
      RecentLogSearches = []\<rparr>"

definition initModel :: Model where
  "initModel = NewModel fuzzy_find savedConfig (Some ''/home/op/.kube/config'') None"

definition cmdTrace :: "(string \<times> tea_msg) list" where
  "cmdTrace = [([], DeploymentsLoadedMsg [''web'', ''worker''] None), ([], KeyMsg ''enter'')]"

definition podTrace :: "(string \<times> tea_msg) list" where
  "podTrace = cmdTrace @ [([], KeyMsg ''enter''), (''a'', KeyMsg ''a'')]"

definition scaleTrace :: "(string \<times> tea_msg) list" where
  "scaleTrace = cmdTrace @
     [([], KeyMsg ''down''), ([], KeyMsg ''down''), ([], KeyMsg ''down''), ([], KeyMsg ''down''),
      ([], KeyMsg ''enter''), (''a'', KeyMsg ''a''), (''ab'', KeyMsg ''b''), (''abc'', KeyMsg ''c'')]"

definition stateAfter :: "(string \<times> tea_msg) list \<Rightarrow> AppState option" where
  "stateAfter tr = map_option state (runMsgs fuzzy_find plainLower tr initModel)"

definition queryAfter :: "(string \<times> tea_msg) list \<Rightarrow> string option" where
  "queryAfter tr = map_option activeQuery (runMsgs fuzzy_find plainLower tr initModel)"

definition typedScale :: Model where
  "typedScale = the (runMsgs fuzzy_find plainLower scaleTrace initModel)"

definition typedPod :: Model where
  "typedPod = the (runMsgs fuzzy_find plainLower podTrace initModel)"

definition atCommands :: Model where
  "atCommands = the (runMsgs fuzzy_find plainLower cmdTrace initModel)"

section \<open>The selector: cursor invariant\<close>

lemma totalItems_nonneg: "0 \<le> totalItems f"
  by (simp add: totalItems_def)

lemma filterItems_cursor:
  "cursor (filterItems fz f) = (if cursor f \<ge> totalItems (filterItems fz f) then 0 else cursor f)"
  by (simp add: filterItems_def totalItems_def Let_def)

lemma filterItems_maxVisible: "maxVisible (filterItems fz f) = maxVisible f"
  by (simp add: filterItems_def Let_def)

lemma filterItems_inv: "0 \<le> cursor f \<Longrightarrow> maxVisible f = 10 \<Longrightarrow> invFL (filterItems fz f)"
  unfolding invFL_def filterItems_cursor filterItems_maxVisible
  using totalItems_nonneg [of "filterItems fz f"] by auto

lemma forwardToInput_inv: "invFL f \<Longrightarrow> invFL (forwardToInput fz nv f)"
  using filterItems_inv [of "f\<lparr>textInput := nv\<rparr>" fz]
  by (auto simp add: forwardToInput_def Let_def invFL_def totalItems_def)

lemma keyUp_inv: "invFL f \<Longrightarrow> invFL (keyUp f)"
  by (auto simp add: keyUp_def Let_def invFL_def totalItems_def)

lemma keyDown_inv: "invFL f \<Longrightarrow> invFL (keyDown f)"
  by (auto simp add: keyDown_def Let_def invFL_def totalItems_def)

lemma keyPgUp_inv: "invFL f \<Longrightarrow> invFL (keyPgUp f)"
  by (auto simp add: keyPgUp_def Let_def invFL_def totalItems_def)

lemma keyPgDown_inv: "invFL f \<Longrightarrow> invFL (keyPgDown f)"
  by (auto simp add: keyPgDown_def Let_def invFL_def totalItems_def)

lemma Update_inv: "invFL f \<Longrightarrow> invFL (FuzzyList_Update fz nv msg f)"
  by (cases msg) (simp_all add: FuzzyList_Update_def keyUp_inv keyDown_inv keyPgUp_inv keyPgDown_inv forwardToInput_inv)

lemma reachableFL_inv: "reachableFL fz f \<Longrightarrow> invFL f"
proof (induction rule: reachableFL.induct)
  case (rNew t)
  show ?case by (simp add: invFL_def NewFuzzyList_def totalItems_def)
next
  case (rSetItems f xs)
  then show ?case unfolding SetItems_def by (intro filterItems_inv) (simp_all add: invFL_def)
next
  case (rSetRecentItems f xs)
  then show ?case unfolding SetRecentItems_def by (intro filterItems_inv) (simp_all add: invFL_def)
next
  case (rSetError f e)
  then show ?case by (simp add: invFL_def SetError_def totalItems_def)
next
  case (rSetLoading f b)
  then show ?case by (simp add: invFL_def SetLoading_def totalItems_def)
next
  case (rReset f)
  then show ?case unfolding Reset_def by (intro filterItems_inv) (simp_all add: invFL_def)
next
  case (rUpdate f nv msg)
  then show ?case by (simp add: Update_inv)
qed

lemma nav_total: "isNavKey k \<Longrightarrow> totalItems (FuzzyList_Update fz nv (KeyMsg k) f) = totalItems f"
  by (auto simp add: isNavKey_def FuzzyList_Update_def keyUp_def keyDown_def keyPgUp_def keyPgDown_def Let_def totalItems_def)


lemma filterItems_resetOrKept:
  "0 \<le> cursor f \<Longrightarrow> cursor g = cursor f \<Longrightarrow> cursorResetOrKept f (filterItems fz g)"
  by (simp add: cursorResetOrKept_def filterItems_cursor)

text \<open>
  Claim C1. In every reachable state of a FuzzyList whose filtered total is not zero,
  the cursor lies in the range from 0 up to, not including, that total. Replacing the
  candidates, replacing the recent items, or a key that changes the query keeps the
  cursor when it still points into the new result and otherwise sets it to 0. The
  navigation keys leave the total unchanged and the cursor inside the range.
\<close>

theorem cursor_in_range:
  assumes "reachableFL fz f"
  shows "(totalItems f \<noteq> 0 \<longrightarrow> cursorInRange f) \<and>
     cursorResetOrKept f (SetItems fz xs f) \<and>
     cursorResetOrKept f (SetRecentItems fz xs f) \<and>
     (\<not> isNavKey k \<longrightarrow> nv \<noteq> textInput f \<longrightarrow>
        cursorResetOrKept f (FuzzyList_Update fz nv (KeyMsg k) f)) \<and>
     (isNavKey k \<longrightarrow> totalItems f \<noteq> 0 \<longrightarrow>
        totalItems (FuzzyList_Update fz nv (KeyMsg k) f) = totalItems f \<and>
        cursorInRange (FuzzyList_Update fz nv (KeyMsg k) f))"
proof -
  have inv: "invFL f" using assms by (rule reachableFL_inv)
  then have c0: "0 \<le> cursor f" by (simp add: invFL_def)
  have a: "totalItems f \<noteq> 0 \<longrightarrow> cursorInRange f"
    using inv by (simp add: invFL_def cursorInRange_def)
  have b: "cursorResetOrKept f (SetItems fz xs f)"
    unfolding SetItems_def using c0 by (intro filterItems_resetOrKept) simp_all
  have c: "cursorResetOrKept f (SetRecentItems fz xs f)"
    unfolding SetRecentItems_def using c0 by (intro filterItems_resetOrKept) simp_all
  have d: "\<not> isNavKey k \<longrightarrow> nv \<noteq> textInput f \<longrightarrow>
        cursorResetOrKept f (FuzzyList_Update fz nv (KeyMsg k) f)"
  proof (intro impI)
    assume nk: "\<not> isNavKey k" and ch: "nv \<noteq> textInput f"
    from nk have "FuzzyList_Update fz nv (KeyMsg k) f = forwardToInput fz nv f"
      by (simp add: FuzzyList_Update_def isNavKey_def)
    also from ch have "\<dots> = filterItems fz (f\<lparr>textInput := nv\<rparr>)"
      by (simp add: forwardToInput_def Let_def)
    finally show "cursorResetOrKept f (FuzzyList_Update fz nv (KeyMsg k) f)"
      using c0 by (simp add: filterItems_resetOrKept)
  qed
  have e: "isNavKey k \<longrightarrow> totalItems f \<noteq> 0 \<longrightarrow>
        totalItems (FuzzyList_Update fz nv (KeyMsg k) f) = totalItems f \<and>
        cursorInRange (FuzzyList_Update fz nv (KeyMsg k) f)"
  proof (intro impI)
    assume nk: "isNavKey k" and nz: "totalItems f \<noteq> 0"
    have t: "totalItems (FuzzyList_Update fz nv (KeyMsg k) f) = totalItems f"
      using nk by (rule nav_total)
    have "invFL (FuzzyList_Update fz nv (KeyMsg k) f)"
      using inv by (rule Update_inv)
    with t nz show "totalItems (FuzzyList_Update fz nv (KeyMsg k) f) = totalItems f \<and>
        cursorInRange (FuzzyList_Update fz nv (KeyMsg k) f)"
      by (simp add: invFL_def cursorInRange_def)
  qed
  from a b c d e show ?thesis by blast
qed


theorem cursor_in_range_witness:
  "reachableFL fuzzy_find demoList \<and> totalItems demoList \<noteq> 0 \<and> cursorInRange demoList \<and>
   isNavKey ''down'' \<and>
   cursorInRange (FuzzyList_Update fuzzy_find [] (KeyMsg ''down'') demoList) \<and>
   \<not> isNavKey ''z'' \<and> ''z'' \<noteq> textInput demoList \<and>
   cursorResetOrKept demoList (FuzzyList_Update fuzzy_find ''z'' (KeyMsg ''z'') demoList)"
proof -
  have r: "reachableFL fuzzy_find demoList"
    unfolding demoList_def by (intro reachableFL.intros)
  have e: "totalItems demoList \<noteq> 0 \<and> isNavKey ''down'' \<and> \<not> isNavKey ''z'' \<and>
      ''z'' \<noteq> textInput demoList"
    by code_simp
  from cursor_in_range [OF r, of "[]" "''down''" "[]"]
    cursor_in_range [OF r, of "[]" "''z''" "''z''"] e r
  show ?thesis by blast
qed

section \<open>The selector: matches\<close>

lemma matchFrom_sound:
  "matchFrom i q s = Some ps \<Longrightarrow>
     sorted_wrt (<) ps \<and> (\<forall>p\<in>set ps. i \<le> p \<and> p < i + length s) \<and>
     map (\<lambda>p. s ! (p - i)) ps = q"
proof (induction i q s arbitrary: ps rule: matchFrom.induct)
  case (1 i s)
  then show ?case by simp
next
  case (2 i c q)
  then show ?case by simp
next
  case (3 i c q d s)
  show ?case
  proof (cases "c = d")
    case True
    with 3(3) obtain ps' where m: "matchFrom (Suc i) q s = Some ps'" and ps: "ps = i # ps'"
      by auto
    from 3(1) [OF True m]
    have ih: "sorted_wrt (<) ps'" "\<forall>p\<in>set ps'. Suc i \<le> p \<and> p < Suc i + length s"
      "map (\<lambda>p. s ! (p - Suc i)) ps' = q" by simp_all
    have "map (\<lambda>p. (d # s) ! (p - i)) ps' = map (\<lambda>p. s ! (p - Suc i)) ps'"
    proof (rule map_cong [OF refl])
      fix p assume "p \<in> set ps'"
      with ih(2) have "Suc i \<le> p" by simp
      then have "p - i = Suc (p - Suc i)" by simp
      then show "(d # s) ! (p - i) = s ! (p - Suc i)" by simp
    qed
    with ih True show ?thesis unfolding ps by auto
  next
    case False
    with 3(3) have m: "matchFrom (Suc i) (c # q) s = Some ps" by simp
    from 3(2) [OF False m]
    have ih: "sorted_wrt (<) ps" "\<forall>p\<in>set ps. Suc i \<le> p \<and> p < Suc i + length s"
      "map (\<lambda>p. s ! (p - Suc i)) ps = c # q" by simp_all
    have "map (\<lambda>p. (d # s) ! (p - i)) ps = map (\<lambda>p. s ! (p - Suc i)) ps"
    proof (rule map_cong [OF refl])
      fix p assume "p \<in> set ps"
      with ih(2) have "Suc i \<le> p" by simp
      then have "p - i = Suc (p - Suc i)" by simp
      then show "(d # s) ! (p - i) = s ! (p - Suc i)" by simp
    qed
    with ih show ?thesis by auto
  qed
qed

lemma fuzzy_find_ok: "finderOK fuzzy_find"
proof -
  have "matchOK q m \<and> Str m \<in> set xs" if "q \<noteq> []" and "m \<in> set (fuzzy_find q xs)" for q xs m
  proof -
    from that obtain i item ps where e: "(i, item) \<in> set (enumerate 0 xs)"
      and mf: "matchFrom 0 q item = Some ps"
      and m: "m = \<lparr>Str = item, Index = i, MatchedIndexes = ps, Score = 0\<rparr>"
      by (auto simp add: fuzzy_find_def List.map_filter_def)
    from e have "item \<in> set xs" by (auto simp add: in_set_enumerate_eq)
    moreover from matchFrom_sound [OF mf] have "matchOK q m"
      unfolding m by (simp add: matchOK_def list_all_iff)
    ultimately show ?thesis unfolding m by simp
  qed
  then show ?thesis unfolding finderOK_def list_all_iff by blast
qed

lemma identityMatches_props:
  "map Str (identityMatches xs) = xs"
  "list_all (\<lambda>m. MatchedIndexes m = []) (identityMatches xs)"
  "list_all (matchOK []) (identityMatches xs)"
  by (simp_all add: identityMatches_def list_all_iff matchOK_def comp_def case_prod_unfold
      map_snd_enumerate [unfolded comp_def])

text \<open>
  Claim C7. For a library matcher that meets its contract (every match for a non-empty
  query carries strictly increasing positions inside the matched item whose characters
  spell the query, and the item is one of the candidates), every match that filtering
  leaves in the recent and in the all section carries such positions for the query
  typed. With the empty query every recent item and every item that is not recent is
  matched, in the original order, with no position highlighted.
\<close>

theorem fuzzy_matches_subsequence:
  assumes "finderOK fz"
  shows "list_all (matchOK (textInput f))
           (filteredRecent (filterItems fz f) @ filtered (filterItems fz f)) \<and>
     (textInput f = [] \<longrightarrow>
        map Str (filteredRecent (filterItems fz f)) = recentItems f \<and>
        map Str (filtered (filterItems fz f)) = itemsWithoutRecent f \<and>
        list_all (\<lambda>m. MatchedIndexes m = [])
          (filteredRecent (filterItems fz f) @ filtered (filterItems fz f)))"
proof (cases "textInput f = []")
  case True
  then have fr: "filteredRecent (filterItems fz f) = identityMatches (recentItems f)"
    and fl: "filtered (filterItems fz f) = identityMatches (itemsWithoutRecent f)"
    by (simp_all add: filterItems_def Let_def identityMatches_def)
  show ?thesis unfolding fr fl using True by (simp add: identityMatches_props)
next
  case False
  from assms False have ok: "list_all (matchOK (textInput f)) (fz (textInput f) xs)" for xs
    unfolding finderOK_def list_all_iff by blast
  have fr: "filteredRecent (filterItems fz f) =
      (if recentItems f = [] then [] else fz (textInput f) (recentItems f))"
    and fl: "filtered (filterItems fz f) = fz (textInput f) (itemsWithoutRecent f)"
    using False by (simp_all add: filterItems_def Let_def)
  show ?thesis unfolding fr fl using False ok by simp
qed

theorem fuzzy_matches_subsequence_witness:
  "finderOK fuzzy_find \<and>
   list_all (matchOK ''a'')
     (filteredRecent (filterItems fuzzy_find (demoList\<lparr>textInput := ''a''\<rparr>)) @
      filtered (filterItems fuzzy_find (demoList\<lparr>textInput := ''a''\<rparr>))) \<and>
   textInput demoList = [] \<and>
   map Str (filtered (filterItems fuzzy_find demoList)) = itemsWithoutRecent demoList"
proof -
  have e: "textInput demoList = []" by code_simp
  from fuzzy_matches_subsequence [OF fuzzy_find_ok, of "demoList\<lparr>textInput := ''a''\<rparr>"]
    fuzzy_matches_subsequence [OF fuzzy_find_ok, of demoList] e fuzzy_find_ok
  show ?thesis by simp
qed

section \<open>The selector: replacing the candidates\<close>




section \<open>The log viewer\<close>

lemma Contains_sublist: "Contains s sub = sublist sub s"
  by (induction s) (simp_all add: sublist_Cons_right)

lemma filterLogs_filtered:
  "filteredLines (filterLogs uni l) = matchingLines uni (searchInput l) (allLines l)"
  by (simp add: filterLogs_def Let_def matchingLines_def Contains_sublist)


lemma filterLogs_other:
  "searchInput (filterLogs uni l) = searchInput l" "allLines (filterLogs uni l) = allLines l"
  "viewportHeight (filterLogs uni l) = viewportHeight l"
  "streaming (filterLogs uni l) = streaming l" "autoScroll (filterLogs uni l) = autoScroll l"
  by (simp_all add: filterLogs_def Let_def)



































text \<open>
  Claim C10. Setting the empty string as content gives no line at all, and no filtered
  line, whatever the query is.
\<close>

theorem empty_logs_no_lines:
  "allLines (SetLogs uni [] l) = [] \<and> filteredLines (SetLogs uni [] l) = [] \<and>
   length (filteredLines (SetLogs uni [] l)) = 0"
  by (simp add: SetLogs_def filterLogs_filtered filterLogs_other matchingLines_def)


section \<open>The wizard: going back\<close>

lemma forwardToInput_textInput: "textInput (forwardToInput fz nv f) = nv"
  by (simp add: forwardToInput_def filterItems_def Let_def)

lemma backspace_to_input:
  "FuzzyList_Update fz nv (KeyMsg ''backspace'') f = forwardToInput fz nv f"
  by (simp add: FuzzyList_Update_def)

lemma updateKey_backspace:
  "\<not> inputEmpty m \<Longrightarrow>
   updateKey fz uni nv ''backspace'' m = updateActive fz nv (KeyMsg ''backspace'') m"
  by (simp add: updateKey_def)

text \<open>
  Claim C4, as stated, fails for the escape key: in the pod selection, with the query
  "a" typed, escape leads back to the command selection.
\<close>

theorem escape_ignores_query_counterexample:
  "stateAfter podTrace = Some StateSelectPod \<and> queryAfter podTrace = Some ''a'' \<and>
   stateAfter (podTrace @ [([], KeyMsg ''esc'')]) = Some StateSelectCommand"
  by code_simp

text \<open>
  Claim C4, amended. In every state other than the log view in which the backspace case
  of \<^verbatim>\<open>Update\<close> reads a non-empty query (the kubeconfig, namespace, deployment, command,
  pod and container selection and the value input), backspace changes neither the state
  nor the stack: the key goes to the active text input, and the query is afterwards
  what that input holds.
\<close>

theorem backspace_edits_query:
  assumes "state m \<noteq> StateViewLogs" and "\<not> inputEmpty m"
  shows "\<exists>m'. Model_Update fz uni nv (KeyMsg ''backspace'') m = Some (m', ChildCmd) \<and>
           state m' = state m \<and> prevStates m' = prevStates m \<and> activeQuery m' = nv"
proof -
  have u: "Model_Update fz uni nv (KeyMsg ''backspace'') m
      = updateActive fz nv (KeyMsg ''backspace'') m"
    using assms by (simp add: Model_Update_def updateKey_backspace)
  show ?thesis
    unfolding u using assms(2)
    by (cases "state m")
      (simp_all add: updateActive_def inputEmpty_def activeQuery_def GetInput_def
        backspace_to_input forwardToInput_textInput)
qed

theorem backspace_edits_query_witness:
  "state typedPod \<noteq> StateViewLogs \<and> \<not> inputEmpty typedPod \<and>
   (\<exists>m'. Model_Update fuzzy_find plainLower [] (KeyMsg ''backspace'') typedPod
            = Some (m', ChildCmd) \<and>
          state m' = state typedPod \<and> prevStates m' = prevStates typedPod \<and>
          activeQuery m' = [])"
proof -
  have e: "state typedPod \<noteq> StateViewLogs \<and> \<not> inputEmpty typedPod"
    by code_simp
  with backspace_edits_query [of typedPod fuzzy_find plainLower "[]"] show ?thesis
    by blast
qed

text \<open>
  Claim C5, as stated, fails: escape in the command selection leads to the deployment
  selection.
\<close>

theorem back_from_commands_counterexample:
  "stateAfter cmdTrace = Some StateSelectCommand \<and>
   stateAfter (cmdTrace @ [([], KeyMsg ''esc'')]) = Some StateSelectDeployment"
  by code_simp

text \<open>
  Claim C5, amended. A back trigger (escape, or backspace with an empty query) in the
  command selection leads to the deployment selection, with the deployment selector
  reset, the deployments loaded again and the stack unchanged; in the deployment
  selection it changes nothing.
\<close>

theorem back_from_commands:
  assumes "k = ''esc'' \<or> k = ''backspace'' \<and> inputEmpty m"
  shows "(state m = StateSelectCommand \<longrightarrow>
            Model_Update fz uni nv (KeyMsg k) m =
              Some (m\<lparr>state := StateSelectDeployment,
                      depSelector := Reset fz (depSelector m)\<rparr>, LoadDeployments)) \<and>
         (state m = StateSelectDeployment \<longrightarrow>
            Model_Update fz uni nv (KeyMsg k) m = Some (m, NoCmd))"
  using assms by (auto simp add: Model_Update_def updateKey_def goBack_def)

theorem back_from_commands_witness:
  "state atCommands = StateSelectCommand \<and>
   Model_Update fuzzy_find plainLower [] (KeyMsg ''esc'') atCommands =
     Some (atCommands\<lparr>state := StateSelectDeployment,
             depSelector := Reset fuzzy_find (depSelector atCommands)\<rparr>, LoadDeployments) \<and>
   state initModel = StateSelectDeployment \<and>
   Model_Update fuzzy_find plainLower [] (KeyMsg ''esc'') initModel = Some (initModel, NoCmd)"
proof -
  have e: "state atCommands = StateSelectCommand \<and> state initModel = StateSelectDeployment"
    by code_simp
  with back_from_commands [of "''esc''" atCommands fuzzy_find plainLower "[]"]
    back_from_commands [of "''esc''" initModel fuzzy_find plainLower "[]"]
  show ?thesis by blast
qed

section \<open>The wizard: the scale command\<close>

text \<open>
  Claim C9. When the input of the scale command is confirmed with a non-empty string
  that \<^verbatim>\<open>strconv.Atoi\<close> rejects, the wizard returns a command that only delivers a
  result message with the error "invalid replica count: " followed by the input, and
  calls no client; on that message the wizard shows the result with the error set.
\<close>

theorem scale_rejects_non_integer:
  assumes "state m = StateInputValue" and "command m = Some c" and "Name c = ''scale''"
    and "valueInput m \<noteq> []" and "Atoi (valueInput m) = None"
  shows "Model_Update fz uni nv (KeyMsg ''enter'') m =
           Some (m\<lparr>inputValue := valueInput m, state := StateExecuting\<rparr>,
                 Emit (CommandResultMsg [] (Some (''invalid replica count: '' @ valueInput m)))) \<and>
         \<not> callsClient (Emit (CommandResultMsg []
               (Some (''invalid replica count: '' @ valueInput m)))) \<and>
         Model_Update fz uni nv'
             (CommandResultMsg [] (Some (''invalid replica count: '' @ valueInput m)))
             (m\<lparr>inputValue := valueInput m, state := StateExecuting\<rparr>) =
           Some (m\<lparr>inputValue := valueInput m, state := StateShowResult,
                   m_err := Some (''invalid replica count: '' @ valueInput m)\<rparr>, NoCmd)"
proof -
  have x: "executeCommand uni (m\<lparr>inputValue := valueInput m\<rparr>) =
      Some (m\<lparr>inputValue := valueInput m, state := StateExecuting\<rparr>,
            Emit (CommandResultMsg [] (Some (''invalid replica count: '' @ valueInput m))))"
    using assms(2,3,5) by (simp add: executeCommand_def Let_def invalidReplicaCount_def)
  have h: "handleEnter fz uni m = executeCommand uni (m\<lparr>inputValue := valueInput m\<rparr>)"
    using assms(1,2,3,4) by (simp add: handleEnter_def Let_def)
  have u: "Model_Update fz uni nv (KeyMsg ''enter'') m = handleEnter fz uni m"
    using assms(1) by (simp add: Model_Update_def updateKey_def)
  have r: "Model_Update fz uni nv'
             (CommandResultMsg [] (Some (''invalid replica count: '' @ valueInput m)))
             (m\<lparr>inputValue := valueInput m, state := StateExecuting\<rparr>) =
           Some (m\<lparr>inputValue := valueInput m, state := StateShowResult,
                   m_err := Some (''invalid replica count: '' @ valueInput m)\<rparr>, NoCmd)"
    by (simp add: Model_Update_def Let_def)
  from x h u r show ?thesis by simp
qed

theorem scale_rejects_non_integer_witness:
  "state typedScale = StateInputValue \<and> map_option Name (command typedScale) = Some ''scale'' \<and>
   valueInput typedScale = ''abc'' \<and> Atoi ''abc'' = None \<and>
   Model_Update fuzzy_find plainLower [] (KeyMsg ''enter'') typedScale =
     Some (typedScale\<lparr>inputValue := ''abc'', state := StateExecuting\<rparr>,
           Emit (CommandResultMsg [] (Some ''invalid replica count: abc'')))"
proof -
  have e: "state typedScale = StateInputValue \<and>
      map_option Name (command typedScale) = Some ''scale'' \<and>
      valueInput typedScale = ''abc'' \<and> Atoi ''abc'' = None"
    by code_simp
  then obtain c where c: "command typedScale = Some c" "Name c = ''scale''"
    by auto
  from e have v: "valueInput typedScale = ''abc''" by simp
  from scale_rejects_non_integer [of typedScale c fuzzy_find plainLower "[]" "[]"] c e
  have "Model_Update fuzzy_find plainLower [] (KeyMsg ''enter'') typedScale =
     Some (typedScale\<lparr>inputValue := valueInput typedScale, state := StateExecuting\<rparr>,
           Emit (CommandResultMsg [] (Some (''invalid replica count: '' @ valueInput typedScale))))"
    by simp
  then show ?thesis using e unfolding v by simp
qed


end
